theory Spec2Isabelle
  imports Complex_Main
begin

section \<open>DNS uptime monitor (intodnspy.py): rolling statistics and anomaly logic\<close>

text \<open>
  Numbers. Python floats are modelled as reals. The \<open>statistics\<close> module computes
  the mean and the sum of squared deviations exactly (on fractions) before converting, so
  the guards of the source (\<open>len < 10\<close>, \<open>sigma == 0\<close>, the branch structure of the
  anomaly logic) are those of the model; rounding of the last float operation is not
  modelled.
\<close>

subsection \<open>Exceptions raised inside the statistics code\<close>

datatype py_exn = StatisticsError | ZeroDivisionError | IndexError

definition float_div :: "real \<Rightarrow> real \<Rightarrow> py_exn + real" where
  \<comment> \<open>\<open>a / b\<close> on floats raises on a zero divisor\<close>
  "float_div a b = (if b = 0 then Inl ZeroDivisionError else Inr (a / b))"

definition py_int :: "real \<Rightarrow> int" where
  \<comment> \<open>\<open>int(x)\<close> truncates towards zero\<close>
  "py_int x = (if 0 \<le> x then \<lfloor>x\<rfloor> else \<lceil>x\<rceil>)"

definition subscript :: "'a list \<Rightarrow> int \<Rightarrow> py_exn + 'a" where
  \<comment> \<open>\<open>xs[i]\<close>: a negative index counts from the end, out of range raises\<close>
  "subscript xs i =
     (if 0 \<le> i \<and> i < int (length xs) then Inr (xs ! nat i)
      else if i < 0 \<and> - int (length xs) \<le> i then Inr (xs ! nat (int (length xs) + i))
      else Inl IndexError)"

definition round_half_even :: "real \<Rightarrow> int" where
  "round_half_even x =
     (let f = \<lfloor>x\<rfloor>; d = x - of_int f
      in if d < 1 / 2 then f else if 1 / 2 < d then f + 1
         else if even f then f else f + 1)"

definition py_round :: "real \<Rightarrow> nat \<Rightarrow> real" where
  \<comment> \<open>\<open>round(x, n)\<close>: to \<open>n\<close> decimals, ties to even\<close>
  "py_round x n = of_int (round_half_even (x * 10 ^ n)) / 10 ^ n"

subsection \<open>\<open>collections.deque\<close> with a bound\<close>

record 'a deque =
  maxlen :: nat
  items :: "'a list"

definition deque_new :: "nat \<Rightarrow> 'a deque" where
  "deque_new n = \<lparr>maxlen = n, items = []\<rparr>"

definition deque_append :: "'a deque \<Rightarrow> 'a \<Rightarrow> 'a deque" where
  \<comment> \<open>append on the right; a full deque drops its leftmost item\<close>
  "deque_append d v =
     (let ys = items d @ [v]
      in d\<lparr>items := (if maxlen d < length ys then tl ys else ys)\<rparr>)"

subsection \<open>The \<open>statistics\<close> functions the monitor calls\<close>

definition mean :: "real list \<Rightarrow> py_exn + real" where
  "mean xs = (if xs = [] then Inl StatisticsError
              else Inr (sum_list xs / real (length xs)))"

definition pstdev :: "real list \<Rightarrow> py_exn + real" where
  "pstdev xs =
     (if xs = [] then Inl StatisticsError
      else let mu = sum_list xs / real (length xs)
           in Inr (sqrt (sum_list (map (\<lambda>x. (x - mu)\<^sup>2) xs) / real (length xs))))"

definition median :: "real list \<Rightarrow> py_exn + real" where
  "median xs =
     (let ys = sort xs; n = length ys
      in if n = 0 then Inl StatisticsError
         else if n mod 2 = 1 then Inr (ys ! (n div 2))
         else Inr ((ys ! (n div 2 - 1) + ys ! (n div 2)) / 2))"

subsection \<open>LatencyStats\<close>

datatype anomaly =
    RepeatedFailures real
  | SingleFailure
  | LatencySpike real real

record LatencyStats =
  samples :: "real deque"
  ema :: "real option"
  alpha :: real
  last_anomaly :: "anomaly option"
  last_anomaly_ts :: "real option"

definition LatencyStats_new :: LatencyStats where
  "LatencyStats_new =
     \<lparr>samples = deque_new 200, ema = None, alpha = 1 / 4,
      last_anomaly = None, last_anomaly_ts = None\<rparr>"

definition LatencyStats_add :: "LatencyStats \<Rightarrow> real \<Rightarrow> LatencyStats" where
  "LatencyStats_add s v =
     s\<lparr>samples := deque_append (samples s) v,
       ema := (case ema s of None \<Rightarrow> Some v
               | Some e \<Rightarrow> Some (alpha s * v + (1 - alpha s) * e))\<rparr>"

definition zscore :: "LatencyStats \<Rightarrow> real \<Rightarrow> py_exn + real" where
  "zscore s v =
     (if length (items (samples s)) < 10 then Inr 0
      else case mean (items (samples s)) of
             Inl e \<Rightarrow> Inl e
           | Inr mu \<Rightarrow>
               let sigma = (case pstdev (items (samples s)) of
                              Inl e \<Rightarrow> 0 | Inr sg \<Rightarrow> sg)
               in if sigma = 0 then Inr 0 else float_div (v - mu) sigma)"

definition or_else :: "real option \<Rightarrow> real \<Rightarrow> real" where
  \<comment> \<open>\<open>a or b\<close> on an optional float: \<open>None\<close> and \<open>0.0\<close> are falsy\<close>
  "or_else a b = (case a of None \<Rightarrow> b | Some x \<Rightarrow> if x = 0 then b else x)"

definition summary :: "LatencyStats \<Rightarrow> py_exn + (string \<times> real) list" where
  "summary s =
     (let xs = items (samples s)
      in if length xs = 0 then Inr [(''count'', 0)]
         else case median xs of
                Inl e \<Rightarrow> Inl e
              | Inr med \<Rightarrow>
                  (case subscript (sort xs) (py_int (95 / 100 * real (length xs - 1))) of
                     Inl e \<Rightarrow> Inl e
                   | Inr p95 \<Rightarrow>
                       Inr [(''count'', real (length xs)),
                            (''median_ms'', py_round med 2),
                            (''p95_ms'', py_round p95 2),
                            (''ema_ms'', py_round (or_else (ema s) med) 2)]))"

definition summary_field :: "py_exn + (string \<times> real) list \<Rightarrow> string \<Rightarrow> real option" where
  \<comment> \<open>\<open>summary().get(name)\<close>\<close>
  "summary_field r name = (case r of Inl e \<Rightarrow> None | Inr d \<Rightarrow> map_of d name)"

text \<open>
  The two statistics of the summary as the specification words them: the median by the
  sorted-middle rule, and the 95th percentile as the element of the sorted samples at
  index \<open>floor (0.95 * (n - 1))\<close>.
\<close>

definition sorted_middle :: "real list \<Rightarrow> real" where
  "sorted_middle xs =
     (if odd (length xs) then sort xs ! (length xs div 2)
      else (sort xs ! (length xs div 2 - 1) + sort xs ! (length xs div 2)) / 2)"

definition nearest_rank_p95 :: "real list \<Rightarrow> real" where
  "nearest_rank_p95 xs = sort xs ! nat \<lfloor>95 / 100 * real (length xs - 1)\<rfloor>"

subsection \<open>UptimeStats\<close>

record UptimeStats =
  window :: int
  results :: "nat deque"

definition UptimeStats_new :: "int \<Rightarrow> UptimeStats" where
  \<comment> \<open>\<open>UptimeStats(window=w)\<close>: the \<open>results\<close> default factory is \<open>deque(maxlen=200)\<close>\<close>
  "UptimeStats_new w = \<lparr>window = w, results = deque_new 200\<rparr>"

definition UptimeStats_add :: "UptimeStats \<Rightarrow> bool \<Rightarrow> UptimeStats" where
  "UptimeStats_add u success =
     u\<lparr>results := deque_append (results u) (if success then 1 else 0)\<rparr>"

definition ratio :: "UptimeStats \<Rightarrow> real" where
  "ratio u = (if items (results u) = [] then 0
              else real (sum_list (items (results u))) / real (length (items (results u))))"

subsection \<open>The monitor and its per-probe update path\<close>

type_synonym key = "string \<times> string \<times> string"

record CheckResult =
  r_target :: string
  r_resolver :: string
  r_rtype :: string
  r_ok :: bool
  r_latency_ms :: real
  r_zscore :: real
  r_addresses :: "string list"
  r_error :: "string option"
  r_uptime_window_ratio :: real
  r_latency_summary :: "(string \<times> real) list"
  r_timestamp :: real

record DNSUptimerAI =
  targets :: "string list"
  resolvers :: "string list"
  records :: "string list"
  interval :: real
  cfg_window :: int
  timeout :: real
  webhook :: "string option"
  latency :: "key \<rightharpoonup> LatencyStats"
  uptime :: "key \<rightharpoonup> UptimeStats"
  last_results :: "key \<rightharpoonup> CheckResult"

definition DNSUptimerAI_new ::
  "string list \<Rightarrow> string list \<Rightarrow> string list \<Rightarrow> real \<Rightarrow> int \<Rightarrow> real \<Rightarrow> string option
   \<Rightarrow> DNSUptimerAI" where
  "DNSUptimerAI_new ts rs rts iv w tmo hook =
     \<lparr>targets = ts, resolvers = rs, records = rts, interval = iv, cfg_window = w,
      timeout = tmo, webhook = hook,
      latency = Map.empty, uptime = Map.empty, last_results = Map.empty\<rparr>"

definition latency_at :: "DNSUptimerAI \<Rightarrow> key \<Rightarrow> LatencyStats" where
  \<comment> \<open>\<open>self.latency[key]\<close> on the defaultdict\<close>
  "latency_at m k = (case latency m k of None \<Rightarrow> LatencyStats_new | Some s \<Rightarrow> s)"

definition uptime_at :: "DNSUptimerAI \<Rightarrow> key \<Rightarrow> UptimeStats" where
  \<comment> \<open>\<open>self.uptime[key]\<close> on the defaultdict\<close>
  "uptime_at m k = (case uptime m k of None \<Rightarrow> UptimeStats_new (cfg_window m) | Some u \<Rightarrow> u)"

type_synonym probe = "bool \<times> real \<times> string list option \<times> string option"

record analysis =
  monitor :: DNSUptimerAI
  result :: CheckResult
  alert :: "anomaly option"

definition decide :: "bool \<Rightarrow> real \<Rightarrow> real \<Rightarrow> real \<Rightarrow> UptimeStats \<Rightarrow> LatencyStats
                       \<Rightarrow> anomaly option" where
  \<comment> \<open>the anomaly branch of \<open>_check_and_analyze\<close>, on the statistics already updated\<close>
  "decide ok latency_ms z upt_w u l =
     (if \<not> ok then
        (if upt_w < 95 / 100 \<and> 20 \<le> length (items (results u))
         then Some (RepeatedFailures upt_w) else Some SingleFailure)
      else if 3 \<le> z \<and> or_else (ema l) latency_ms * (3 / 2) < latency_ms
           then Some (LatencySpike z latency_ms)
      else None)"

fun check_and_analyze ::
  "DNSUptimerAI \<Rightarrow> string \<Rightarrow> string \<Rightarrow> string \<Rightarrow> probe \<Rightarrow> real \<Rightarrow> real
   \<Rightarrow> py_exn + analysis" where
  \<comment> \<open>the tuple is what \<open>_resolve_once\<close> returned; \<open>now\<close>, \<open>now'\<close> are the
      two readings of \<open>time.time()\<close>\<close>
  "check_and_analyze m target resolver_ip rtype (ok, latency_ms, addrs, err) now now' =
     (let k = (target, resolver_ip, rtype);
          u = UptimeStats_add (uptime_at m k) ok;
          l = LatencyStats_add (latency_at m k) latency_ms
      in case zscore l latency_ms of
           Inl e \<Rightarrow> Inl e
         | Inr z \<Rightarrow>
            (case summary l of
               Inl e \<Rightarrow> Inl e
             | Inr summ \<Rightarrow>
                let upt_w = ratio u;
                    res = \<lparr>r_target = target, r_resolver = resolver_ip, r_rtype = rtype,
                           r_ok = ok, r_latency_ms = py_round latency_ms 2,
                           r_zscore = py_round z 2,
                           r_addresses = (case addrs of None \<Rightarrow> [] | Some a \<Rightarrow> a),
                           r_error = err,
                           r_uptime_window_ratio = py_round upt_w 4,
                           r_latency_summary = summ, r_timestamp = now\<rparr>;
                    a = decide ok latency_ms z upt_w u l;
                    l' = (case a of None \<Rightarrow> l
                          | Some txt \<Rightarrow> l\<lparr>last_anomaly := Some txt,
                                             last_anomaly_ts := Some now'\<rparr>)
                in Inr \<lparr>monitor = m\<lparr>latency := (latency m)(k \<mapsto> l'),
                                      uptime := (uptime m)(k \<mapsto> u),
                                      last_results := (last_results m)(k \<mapsto> res)\<rparr>,
                        result = res, alert = a\<rparr>))"

definition stored_zscore :: "py_exn + analysis \<Rightarrow> py_exn + real" where
  \<comment> \<open>the \<open>zscore\<close> entry of the result a call stores, or what the call raised\<close>
  "stored_zscore r = (case r of Inl e \<Rightarrow> Inl e | Inr out \<Rightarrow> Inr (r_zscore (result out)))"

definition rounded :: "nat \<Rightarrow> py_exn + real \<Rightarrow> py_exn + real" where
  "rounded n r = (case r of Inl e \<Rightarrow> Inl e | Inr z \<Rightarrow> Inr (py_round z n))"

definition reason :: "py_exn + analysis \<Rightarrow> anomaly option" where
  "reason r = (case r of Inl e \<Rightarrow> None | Inr out \<Rightarrow> alert out)"

definition latency_after :: "py_exn + analysis \<Rightarrow> key \<Rightarrow> LatencyStats option" where
  "latency_after r k = (case r of Inl e \<Rightarrow> None | Inr out \<Rightarrow> latency (monitor out) k)"

subsection \<open>The probe\<close>

datatype exn_class =
    LifetimeTimeout | NXDOMAIN | NoAnswer | NoNameservers | FormError | OSError
  | KeyboardInterrupt | SystemExit | CancelledError

fun is_Exception :: "exn_class \<Rightarrow> bool" where
  \<comment> \<open>the classes \<open>except Exception\<close> catches; the last three derive from
      \<open>BaseException\<close> only\<close>
  "is_Exception KeyboardInterrupt = False"
| "is_Exception SystemExit = False"
| "is_Exception CancelledError = False"
| "is_Exception _ = True"

record raised =
  cls :: exn_class
  str_e :: string

definition resolve_once ::
  "('r \<Rightarrow> string) \<Rightarrow> real \<Rightarrow> real \<Rightarrow> raised + 'r list \<Rightarrow> raised + probe" where
  \<comment> \<open>\<open>t0\<close>, \<open>t1\<close>: the readings of \<open>perf_counter\<close> before and after the
      body of the \<open>try\<close>; \<open>body\<close>: what that body did, an answer or an exception\<close>
  "resolve_once str_r t0 t1 body =
     (case body of
        Inr ans \<Rightarrow> Inr (True, (t1 - t0) * 1000, Some (map str_r ans), None)
      | Inl e \<Rightarrow>
          if is_Exception (cls e) then Inr (False, (t1 - t0) * 1000, None, Some (str_e e))
          else Inl e)"

subsection \<open>The monitor loop\<close>

text \<open>
  \<open>run_loop\<close> is a coroutine: it runs from one \<open>await\<close> to the next, and the signal
  handler (\<open>stop\<close>) runs only while it is suspended. Its state is the place where it is
  suspended, the stop event, and the number of waves dispatched so far. A suspended
  \<open>wait_for\<close> carries the time left before its timeout, in ticks.
\<close>

datatype place = InGather | InWaitFor nat | Returned

record loop =
  pc :: place
  stop_set :: bool
  waves :: nat

datatype event = StopSignal | GatherDone | Tick

definition while_test :: "loop \<Rightarrow> loop" where
  \<comment> \<open>\<open>while not self._stop.is_set()\<close>, then the dispatch of a wave up to \<open>gather\<close>\<close>
  "while_test s = (if stop_set s then s\<lparr>pc := Returned\<rparr>
                   else s\<lparr>pc := InGather, waves := Suc (waves s)\<rparr>)"

definition enter_wait :: "nat \<Rightarrow> loop \<Rightarrow> loop" where
  \<comment> \<open>\<open>wait_for(self._stop.wait(), timeout=interval)\<close>: it returns at once when the
      event is set already, and the loop goes on to its test\<close>
  "enter_wait iv s = (if stop_set s then while_test s else s\<lparr>pc := InWaitFor iv\<rparr>)"

fun step :: "nat \<Rightarrow> loop \<Rightarrow> event \<Rightarrow> loop" where
  "step iv s StopSignal =
     (case pc s of
        InWaitFor k \<Rightarrow> while_test (s\<lparr>stop_set := True\<rparr>)
      | _ \<Rightarrow> s\<lparr>stop_set := True\<rparr>)"
| "step iv s GatherDone =
     (case pc s of InGather \<Rightarrow> enter_wait iv s | _ \<Rightarrow> s)"
| "step iv s Tick =
     (case pc s of
        InWaitFor k \<Rightarrow> if k \<le> 1 then while_test s else s\<lparr>pc := InWaitFor (k - 1)\<rparr>
      | _ \<Rightarrow> s)"

definition run_loop :: "nat \<Rightarrow> event list \<Rightarrow> loop" where
  \<comment> \<open>the loop started with the event clear and no wave dispatched yet (its first
      test sets the place), then driven by the events\<close>
  "run_loop iv es =
     foldl (step iv) (while_test \<lparr>pc = Returned, stop_set = False, waves = 0\<rparr>) es"

section \<open>Auxiliary facts\<close>

subsection \<open>The statistics calls never raise\<close>

lemma zscore_no_raise: "\<exists>z. zscore s v = Inr z"
  by (auto simp: zscore_def mean_def pstdev_def float_div_def Let_def)

lemma p95_floor: "\<lfloor>95 / 100 * real n\<rfloor> = int (19 * n div 20)"
proof -
  have "95 / 100 * real n = real (19 * n) / real 20" by simp
  then show ?thesis by (simp only: floor_divide_of_nat_eq)
qed

lemma p95_index: "py_int (95 / 100 * real n) = int (19 * n div 20)"
  using p95_floor [of n] by (simp add: py_int_def)

lemma sort_Nil_iff: "(sort xs = []) = (xs = [])"
  by (metis length_sort length_0_conv)

lemma median_nonempty: "xs \<noteq> [] \<Longrightarrow> median xs = Inr (sorted_middle xs)"
  by (simp add: median_def sorted_middle_def Let_def odd_iff_mod_2_eq_one sort_Nil_iff)

lemma p95_subscript:
  assumes "xs \<noteq> []"
  shows "subscript (sort xs) (py_int (95 / 100 * real (length xs - 1)))
         = Inr (nearest_rank_p95 xs)"
proof -
  have "19 * (length xs - 1) div 20 < length xs"
    using assms by (cases xs) auto
  then show ?thesis
    by (simp only: p95_index subscript_def nearest_rank_p95_def p95_floor) simp
qed

lemma summary_nonempty:
  assumes "items (samples s) \<noteq> []"
  shows "summary s =
         Inr [(''count'', real (length (items (samples s)))),
              (''median_ms'', py_round (sorted_middle (items (samples s))) 2),
              (''p95_ms'', py_round (nearest_rank_p95 (items (samples s))) 2),
              (''ema_ms'', py_round (or_else (ema s) (sorted_middle (items (samples s)))) 2)]"
proof -
  note m = median_nonempty [OF assms] and p = p95_subscript [OF assms]
  show ?thesis unfolding summary_def Let_def m p using assms by simp
qed

lemma summary_no_raise: "\<exists>d. summary s = Inr d"
proof (cases "items (samples s) = []")
  case True
  then show ?thesis by (simp add: summary_def)
next
  case False
  then show ?thesis by (simp only: summary_nonempty [OF False]) simp
qed

lemma check_and_analyze_unfold:
  assumes "zscore (LatencyStats_add (latency_at m (t, r, rt)) x) x = Inr z"
  shows "\<exists>out. check_and_analyze m t r rt (ok, x, addrs, err) now now' = Inr out
           \<and> r_zscore (result out) = py_round z 2
           \<and> alert out = decide ok x z (ratio (UptimeStats_add (uptime_at m (t, r, rt)) ok))
                 (UptimeStats_add (uptime_at m (t, r, rt)) ok)
                 (LatencyStats_add (latency_at m (t, r, rt)) x)
           \<and> (\<exists>l. latency (monitor out) (t, r, rt) = Some l
                 \<and> samples l = samples (LatencyStats_add (latency_at m (t, r, rt)) x)
                 \<and> ema l = ema (LatencyStats_add (latency_at m (t, r, rt)) x))"
proof -
  obtain d where d: "summary (LatencyStats_add (latency_at m (t, r, rt)) x) = Inr d"
    using summary_no_raise by blast
  show ?thesis using assms d by (simp add: Let_def split: option.split)
qed

declare check_and_analyze.simps [simp del]

lemma check_and_analyze_no_raise:
  "\<exists>out. check_and_analyze m t r rt (ok, x, addrs, err) now now' = Inr out"
  using zscore_no_raise [of "LatencyStats_add (latency_at m (t, r, rt)) x" x]
    check_and_analyze_unfold [of m t r rt x _ ok addrs err now now']
  by blast

lemma stored_zscore_eq:
  "stored_zscore (check_and_analyze m t r rt (ok, x, addrs, err) now now')
   = rounded 2 (zscore (LatencyStats_add (latency_at m (t, r, rt)) x) x)"
proof -
  obtain z where z: "zscore (LatencyStats_add (latency_at m (t, r, rt)) x) x = Inr z"
    using zscore_no_raise by blast
  from check_and_analyze_unfold [OF z, of ok addrs err now now']
  show ?thesis using z by (auto simp: stored_zscore_def rounded_def)
qed

lemma reason_eq:
  assumes "zscore (LatencyStats_add (latency_at m (t, r, rt)) x) x = Inr z"
  shows "reason (check_and_analyze m t r rt (ok, x, addrs, err) now now')
         = decide ok x z (ratio (UptimeStats_add (uptime_at m (t, r, rt)) ok))
             (UptimeStats_add (uptime_at m (t, r, rt)) ok)
             (LatencyStats_add (latency_at m (t, r, rt)) x)"
  using check_and_analyze_unfold [OF assms, of ok addrs err now now']
  by (auto simp: reason_def)

lemma decide_success:
  "decide True x z w u l
   = (if 3 \<le> z \<and> or_else (ema l) x * (3 / 2) < x then Some (LatencySpike z x) else None)"
  by (simp add: decide_def)

lemma decide_failure:
  "decide False x z w u l
   = (if w < 95 / 100 \<and> 20 \<le> length (items (results u))
      then Some (RepeatedFailures w) else Some SingleFailure)"
  by (simp add: decide_def)

lemma pstdev_identical:
  assumes "xs \<noteq> []" and "\<forall>y \<in> set xs. y = c"
  shows "pstdev xs = Inr 0"
proof -
  have rep: "xs = replicate (length xs) c"
    using assms(2) by (simp add: replicate_length_same)
  have len: "real (length xs) \<noteq> 0" using assms(1) by simp
  have "sum_list xs = real (length xs) * c"
    by (subst rep) (simp add: sum_list_replicate)
  then have mu: "sum_list xs / real (length xs) = c"
    using len by simp
  have "map (\<lambda>x. (x - c)\<^sup>2) xs = replicate (length xs) 0"
    using assms(2) by (simp add: map_replicate_const [symmetric] cong: map_cong)
  then have "sum_list (map (\<lambda>x. (x - c)\<^sup>2) xs) = 0"
    by (simp add: sum_list_replicate)
  then show ?thesis
    using assms(1) by (simp add: pstdev_def Let_def mu)
qed

lemma sqrt_square_eq: "0 \<le> y \<Longrightarrow> y * y = x \<Longrightarrow> sqrt x = y"
  by (metis real_sqrt_abs2 abs_of_nonneg)

section \<open>LatencyStats\<close>

text \<open>
  C5. With fewer than ten samples in the window, \<open>zscore\<close> returns exactly 0
  whatever value is probed.
\<close>

theorem zscore_cold_start:
  "length (items (samples s)) < 10 \<Longrightarrow> zscore s v = Inr 0"
  by (simp add: zscore_def)

theorem zscore_cold_start_witness:
  "length (items (samples (LatencyStats_add LatencyStats_new 7))) < 10
   \<and> zscore (LatencyStats_add LatencyStats_new 7) 1000 = Inr 0"
proof -
  have h: "length (items (samples (LatencyStats_add LatencyStats_new 7))) < 10"
    by (simp add: LatencyStats_add_def LatencyStats_new_def deque_append_def deque_new_def)
  show ?thesis using h zscore_cold_start [OF h, of 1000] by simp
qed


text \<open>
  C6. With at least ten samples of zero population standard deviation, in particular
  with ten or more identical samples, \<open>zscore\<close> returns 0 for every probed value:
  the division, which would raise on a zero divisor, is not reached.
\<close>

theorem zscore_zero_variance:
  assumes "10 \<le> length (items (samples s))"
    and "pstdev (items (samples s)) = Inr 0 \<or> (\<forall>y \<in> set (items (samples s)). y = c)"
  shows "zscore s v = Inr 0"
proof -
  have ne: "items (samples s) \<noteq> []" using assms(1) by auto
  have "pstdev (items (samples s)) = Inr 0"
    using assms(2) pstdev_identical [OF ne] by blast
  then show ?thesis
    using ne by (simp add: zscore_def mean_def Let_def)
qed

theorem zscore_zero_variance_witness:
  "10 \<le> length (items (samples (foldl LatencyStats_add LatencyStats_new
                                    [10, 10, 10, 10, 10, 10, 10, 10, 10, 10])))
   \<and> items (samples (foldl LatencyStats_add LatencyStats_new
                         [10, 10, 10, 10, 10, 10, 10, 10, 10, 10]))
       = [10, 10, 10, 10, 10, 10, 10, 10, 10, 10]
   \<and> zscore (foldl LatencyStats_add LatencyStats_new
               [10, 10, 10, 10, 10, 10, 10, 10, 10, 10]) 50 = Inr 0"
proof -
  let ?s = "foldl LatencyStats_add LatencyStats_new [10, 10, 10, 10, 10, 10, 10, 10, 10, 10]"
  have i: "items (samples ?s) = [10, 10, 10, 10, 10, 10, 10, 10, 10, 10]"
    by (simp add: LatencyStats_add_def LatencyStats_new_def deque_append_def deque_new_def
          Let_def)
  have h1: "10 \<le> length (items (samples ?s))" unfolding i by simp
  have h2: "\<forall>y \<in> set (items (samples ?s)). y = 10" unfolding i by simp
  have "zscore ?s 50 = Inr 0"
    using zscore_zero_variance [of ?s 10 50] h1 h2 by blast
  then show ?thesis using h1 i by blast
qed

text \<open>
  C7 (as the code has it). On a non-empty window \<open>summary\<close> reports the number of
  samples, the sorted-middle median and the element at index
  \<open>floor (0.95 * (n - 1))\<close> of the sorted samples, each of the two rounded to two
  decimals (and the EMA, or the median for an EMA of 0, rounded alike); on an empty window
  it reports the count 0 and nothing else.
\<close>

theorem summary_reports:
  "summary s =
     (if items (samples s) = [] then Inr [(''count'', 0)]
      else Inr [(''count'', real (length (items (samples s)))),
                (''median_ms'', py_round (sorted_middle (items (samples s))) 2),
                (''p95_ms'', py_round (nearest_rank_p95 (items (samples s))) 2),
                (''ema_ms'',
                 py_round (or_else (ema s) (sorted_middle (items (samples s)))) 2)])"
proof (cases "items (samples s) = []")
  case True
  then show ?thesis by (simp add: summary_def)
next
  case False
  then show ?thesis by (simp only: summary_nonempty [OF False] if_False)
qed

text \<open>
  C7 as stated fails. After the single sample 12.3456 the summary reports 12.35 for the
  median and for the p95, where the sorted-middle median and the element at index 0 of
  the sorted samples are both 12.3456.
\<close>

theorem summary_unrounded_counterexample:
  "summary_field (summary (LatencyStats_add LatencyStats_new (123456 / 10000))) ''median_ms''
     \<noteq> Some (sorted_middle (items (samples (LatencyStats_add LatencyStats_new
                                                (123456 / 10000)))))
   \<and> summary_field (summary (LatencyStats_add LatencyStats_new (123456 / 10000))) ''p95_ms''
     \<noteq> Some (nearest_rank_p95 (items (samples (LatencyStats_add LatencyStats_new
                                                   (123456 / 10000)))))"
proof -
  let ?s = "LatencyStats_add LatencyStats_new (123456 / 10000)"
  have i: "items (samples ?s) = [123456 / 10000]"
    by (simp add: LatencyStats_add_def LatencyStats_new_def deque_append_def deque_new_def
          Let_def)
  have ne: "items (samples ?s) \<noteq> []" unfolding i by simp
  have m: "sorted_middle [123456 / 10000] = 123456 / 10000"
    by (simp add: sorted_middle_def)
  have p: "nearest_rank_p95 [123456 / 10000] = 123456 / 10000"
    by (simp add: nearest_rank_p95_def)
  have rnd: "py_round (123456 / 10000) 2 = 1235 / 100"
    by (simp add: py_round_def round_half_even_def Let_def)
  show ?thesis
    unfolding summary_nonempty [OF ne] i m p rnd
    by (simp add: summary_field_def)
qed

section \<open>The per-probe update path\<close>

text \<open>
  C1 (as the code has it). \<open>_check_and_analyze\<close> calls \<open>add\<close> first and
  \<open>zscore\<close> afterwards: the z-score stored in the result of a probe with latency
  \<open>x\<close> is \<open>zscore\<close> evaluated on the window that already holds \<open>x\<close>, rounded
  to two decimals; and that evaluation never raises.
\<close>

theorem zscore_recorded_after_add:
  "stored_zscore (check_and_analyze m t r rt (ok, x, addrs, err) now now')
     = rounded 2 (zscore (LatencyStats_add (latency_at m (t, r, rt)) x) x)
   \<and> (\<exists>z. zscore (LatencyStats_add (latency_at m (t, r, rt)) x) x = Inr z)"
  using stored_zscore_eq zscore_no_raise by blast

text \<open>
  C1 as stated fails. A key whose window holds the nine samples 40, 10, ..., 10 is probed
  with latency 10. Against the prior window \<open>zscore\<close> is 0 (fewer than ten samples);
  the stored value is -0.33, the rounded z-score of 10 in the window of ten samples
  (mean 13, deviation 9).
\<close>

theorem zscore_prior_window_counterexample:
  "stored_zscore
     (check_and_analyze
        ((DNSUptimerAI_new [''example.com''] [''1.1.1.1''] [''A''] 15 200 3 None)
           \<lparr>latency := [(''example.com'', ''1.1.1.1'', ''A'') \<mapsto>
              foldl LatencyStats_add LatencyStats_new [40, 10, 10, 10, 10, 10, 10, 10, 10]]\<rparr>)
        ''example.com'' ''1.1.1.1'' ''A'' (True, 10, Some [''192.0.2.1''], None) 0 0)
   \<noteq> zscore (foldl LatencyStats_add LatencyStats_new [40, 10, 10, 10, 10, 10, 10, 10, 10]) 10"
proof -
  have sq: "sqrt 81 = 9" by (rule sqrt_square_eq) simp_all
  show ?thesis
    unfolding stored_zscore_eq
    by (simp add: latency_at_def DNSUptimerAI_new_def LatencyStats_add_def
          LatencyStats_new_def deque_append_def deque_new_def Let_def zscore_def mean_def
          pstdev_def float_div_def rounded_def power2_eq_square sq py_round_def
          round_half_even_def)
qed

text \<open>
  C2 (as the code has it). On a successful probe with latency \<open>x\<close> an anomaly is
  reported exactly when the z-score of \<open>x\<close> in the updated window is at least 3 and
  \<open>x\<close> exceeds 1.5 times the EMA after this sample's update (\<open>x\<close> itself stands in
  for an EMA of 0).
\<close>

theorem latency_spike_iff:
  "(reason (check_and_analyze m t r rt (True, x, addrs, err) now now') \<noteq> None)
   = (\<exists>z. zscore (LatencyStats_add (latency_at m (t, r, rt)) x) x = Inr z \<and> 3 \<le> z
          \<and> or_else (ema (LatencyStats_add (latency_at m (t, r, rt)) x)) x * (3 / 2) < x)"
proof -
  obtain z where z: "zscore (LatencyStats_add (latency_at m (t, r, rt)) x) x = Inr z"
    using zscore_no_raise by blast
  show ?thesis
    unfolding reason_eq [OF z] using z by (simp add: decide_def)
qed

text \<open>
  C2 as stated fails. The window of a key holds eight samples of 10 and eight of 12, its
  EMA is 386655/32768 (about 11.8); a successful probe takes 19 ms. The z-score of 19 is 8
  against the prior window and 3.56 as stored, and 19 exceeds 1.5 times the prior EMA
  (about 17.7), yet no anomaly is reported: the updated EMA is about 13.6, and 19 is below
  1.5 times that.
\<close>

theorem prior_ema_gate_counterexample:
  "reason
     (check_and_analyze
        ((DNSUptimerAI_new [''example.com''] [''1.1.1.1''] [''A''] 15 200 3 None)
           \<lparr>latency := [(''example.com'', ''1.1.1.1'', ''A'') \<mapsto>
              foldl LatencyStats_add LatencyStats_new
                [10, 10, 10, 10, 10, 10, 10, 10, 12, 12, 12, 12, 12, 12, 12, 12]]\<rparr>)
        ''example.com'' ''1.1.1.1'' ''A'' (True, 19, Some [''192.0.2.1''], None) 0 0) = None
   \<and> zscore (foldl LatencyStats_add LatencyStats_new
                [10, 10, 10, 10, 10, 10, 10, 10, 12, 12, 12, 12, 12, 12, 12, 12]) 19 = Inr 8
   \<and> stored_zscore
     (check_and_analyze
        ((DNSUptimerAI_new [''example.com''] [''1.1.1.1''] [''A''] 15 200 3 None)
           \<lparr>latency := [(''example.com'', ''1.1.1.1'', ''A'') \<mapsto>
              foldl LatencyStats_add LatencyStats_new
                [10, 10, 10, 10, 10, 10, 10, 10, 12, 12, 12, 12, 12, 12, 12, 12]]\<rparr>)
        ''example.com'' ''1.1.1.1'' ''A'' (True, 19, Some [''192.0.2.1''], None) 0 0)
       = Inr (356 / 100)
   \<and> ema (foldl LatencyStats_add LatencyStats_new
                [10, 10, 10, 10, 10, 10, 10, 10, 12, 12, 12, 12, 12, 12, 12, 12])
       = Some (386655 / 32768)
   \<and> (386655 / 32768) * (3 / 2) < (19 :: real)"
proof -
  let ?vs = "[10, 10, 10, 10, 10, 10, 10, 10, 12, 12, 12, 12, 12, 12, 12, 12] :: real list"
  let ?k = "(''example.com'', ''1.1.1.1'', ''A'')"
  let ?m = "(DNSUptimerAI_new [''example.com''] [''1.1.1.1''] [''A''] 15 200 3 None)
              \<lparr>latency := [?k \<mapsto> foldl LatencyStats_add LatencyStats_new ?vs]\<rparr>"
  let ?s = "\<lparr>samples = \<lparr>maxlen = 200, items = ?vs\<rparr>, ema = Some (386655 / 32768),
         alpha = 1 / 4, last_anomaly = None, last_anomaly_ts = None\<rparr>"
  have prior: "foldl LatencyStats_add LatencyStats_new ?vs = ?s"
    by (simp add: LatencyStats_add_def LatencyStats_new_def deque_append_def deque_new_def
          Let_def)
  have at: "latency_at ?m ?k = ?s"
    using prior by (simp add: latency_at_def)
  have sq: "sqrt (1296 / 289) = 36 / 17" by (rule sqrt_square_eq) simp_all
  have zb: "zscore (foldl LatencyStats_add LatencyStats_new ?vs) 19 = Inr 8"
    unfolding prior
    by (simp add: zscore_def mean_def pstdev_def float_div_def Let_def power2_eq_square)
  have za: "zscore (LatencyStats_add (latency_at ?m ?k) 19) 19 = Inr (32 / 9)"
    unfolding at
    by (simp add: LatencyStats_add_def deque_append_def zscore_def mean_def pstdev_def
          float_div_def Let_def power2_eq_square sq)
  have r: "reason (check_and_analyze ?m ''example.com'' ''1.1.1.1'' ''A''
             (True, 19, Some [''192.0.2.1''], None) 0 0) = None"
    unfolding reason_eq [OF za] decide_success at
    by (simp add: LatencyStats_add_def or_else_def)
  have rnd: "rounded 2 (Inr (32 / 9)) = Inr (356 / 100)"
    by (simp add: rounded_def py_round_def round_half_even_def)
  have st: "stored_zscore (check_and_analyze ?m ''example.com'' ''1.1.1.1'' ''A''
             (True, 19, Some [''192.0.2.1''], None) 0 0) = Inr (356 / 100)"
    unfolding stored_zscore_eq za by (rule rnd)
  have e: "ema (foldl LatencyStats_add LatencyStats_new ?vs) = Some (386655 / 32768)"
    unfolding prior by simp
  have gate: "(386655 / 32768) * (3 / 2) < (19 :: real)"
    by simp
  show ?thesis
    by (intro conjI) (rule r zb st e gate)+
qed

text \<open>
  C4. A failed probe always yields a reason: "repeated failures" exactly when the key's
  window of outcomes, the failure just recorded included, holds at least 20 outcomes and
  its ratio is below 0.95, and "single failure" otherwise.
\<close>

theorem failed_probe_reason:
  "reason (check_and_analyze m t r rt (False, x, addrs, err) now now')
   = (if 20 \<le> length (items (results (UptimeStats_add (uptime_at m (t, r, rt)) False)))
         \<and> ratio (UptimeStats_add (uptime_at m (t, r, rt)) False) < 95 / 100
      then Some (RepeatedFailures (ratio (UptimeStats_add (uptime_at m (t, r, rt)) False)))
      else Some SingleFailure)"
proof -
  obtain z where z: "zscore (LatencyStats_add (latency_at m (t, r, rt)) x) x = Inr z"
    using zscore_no_raise by blast
  show ?thesis
    unfolding reason_eq [OF z] by (auto simp: decide_def)
qed

text \<open>
  The two examples of the claim: a failing probe on a key with five prior outcomes
  (four of them successes) yields "single failure"; on a key with 25 prior outcomes at
  ratio 0.80 it yields "repeated failures".
\<close>

theorem failed_probe_reason_witness:
  "reason
     (check_and_analyze
        ((DNSUptimerAI_new [''example.com''] [''1.1.1.1''] [''A''] 15 200 3 None)
           \<lparr>uptime := [(''example.com'', ''1.1.1.1'', ''A'') \<mapsto>
              foldl UptimeStats_add (UptimeStats_new 200) [True, True, False, True, True]]\<rparr>)
        ''example.com'' ''1.1.1.1'' ''A'' (False, 3000, None, Some ''timed out'') 0 0)
     = Some SingleFailure
   \<and> reason
     (check_and_analyze
        ((DNSUptimerAI_new [''example.com''] [''1.1.1.1''] [''A''] 15 200 3 None)
           \<lparr>uptime := [(''example.com'', ''1.1.1.1'', ''A'') \<mapsto>
              foldl UptimeStats_add (UptimeStats_new 200)
                [True, True, True, True, False, True, True, True, True, False,
                 True, True, True, True, False, True, True, True, True, False,
                 True, True, True, True, False]]\<rparr>)
        ''example.com'' ''1.1.1.1'' ''A'' (False, 3000, None, Some ''timed out'') 0 0)
     = Some (RepeatedFailures (20 / 26))"
  unfolding failed_probe_reason
  by (simp add: uptime_at_def DNSUptimerAI_new_def UptimeStats_add_def UptimeStats_new_def
        deque_append_def deque_new_def Let_def ratio_def)

text \<open>
  C10. Whatever the success flag of a probe, its elapsed time is appended to the window
  of the key's LatencyStats and folded into its EMA; on a window of positive capacity it
  is the newest sample afterwards.
\<close>

theorem every_latency_recorded:
  "\<exists>l. latency_after (check_and_analyze m t r rt (ok, x, addrs, err) now now') (t, r, rt)
          = Some l
       \<and> samples l = deque_append (samples (latency_at m (t, r, rt))) x
       \<and> ema l = Some (case ema (latency_at m (t, r, rt)) of None \<Rightarrow> x
                       | Some e \<Rightarrow> alpha (latency_at m (t, r, rt)) * x
                                   + (1 - alpha (latency_at m (t, r, rt))) * e)
       \<and> (0 < maxlen (samples (latency_at m (t, r, rt)))
            \<longrightarrow> items (samples l) \<noteq> [] \<and> last (items (samples l)) = x)"
proof -
  obtain z where z: "zscore (LatencyStats_add (latency_at m (t, r, rt)) x) x = Inr z"
    using zscore_no_raise by blast
  from check_and_analyze_unfold [OF z, of ok addrs err now now']
  obtain out l where out: "check_and_analyze m t r rt (ok, x, addrs, err) now now' = Inr out"
    and l: "latency (monitor out) (t, r, rt) = Some l"
      "samples l = samples (LatencyStats_add (latency_at m (t, r, rt)) x)"
      "ema l = ema (LatencyStats_add (latency_at m (t, r, rt)) x)"
    by blast
  have A: "latency_after (check_and_analyze m t r rt (ok, x, addrs, err) now now') (t, r, rt)
          = Some l"
    using out l(1) by (simp add: latency_after_def)
  have B: "samples l = deque_append (samples (latency_at m (t, r, rt))) x"
    using l(2) by (simp add: LatencyStats_add_def)
  have C: "ema l = Some (case ema (latency_at m (t, r, rt)) of None \<Rightarrow> x
                       | Some e \<Rightarrow> alpha (latency_at m (t, r, rt)) * x
                                   + (1 - alpha (latency_at m (t, r, rt))) * e)"
    using l(3) by (simp add: LatencyStats_add_def split: option.split)
  have D: "0 < maxlen (samples (latency_at m (t, r, rt)))
            \<longrightarrow> items (samples l) \<noteq> [] \<and> last (items (samples l)) = x"
    unfolding B
    by (cases "items (samples (latency_at m (t, r, rt)))")
       (simp_all add: deque_append_def Let_def)
  show ?thesis
    using A B C D by - (rule exI [of _ l], intro conjI, assumption+)
qed

text \<open>
  A probe that failed after a full timeout of 3000 ms, on a key never probed before: the
  window holds that latency and the EMA starts from it.
\<close>

theorem every_latency_recorded_witness:
  "\<exists>l. latency_after
          (check_and_analyze
             (DNSUptimerAI_new [''example.com''] [''1.1.1.1''] [''A''] 15 200 3 None)
             ''example.com'' ''1.1.1.1'' ''A'' (False, 3000, None, Some ''timed out'') 0 0)
          (''example.com'', ''1.1.1.1'', ''A'') = Some l
       \<and> items (samples l) = [3000] \<and> ema l = Some 3000
       \<and> 0 < maxlen (samples (latency_at
             (DNSUptimerAI_new [''example.com''] [''1.1.1.1''] [''A''] 15 200 3 None)
             (''example.com'', ''1.1.1.1'', ''A'')))"
  using every_latency_recorded
    [of "DNSUptimerAI_new [''example.com''] [''1.1.1.1''] [''A''] 15 200 3 None"
        "''example.com''" "''1.1.1.1''" "''A''" False 3000 None "Some ''timed out''" 0 0]
  by (auto simp: latency_at_def DNSUptimerAI_new_def LatencyStats_new_def deque_new_def
        deque_append_def Let_def)

section \<open>Window capacity\<close>

lemma deque_append_maxlen: "maxlen (deque_append d v) = maxlen d"
  by (simp add: deque_append_def Let_def)

lemma deque_append_items:
  assumes "length (items d) \<le> maxlen d"
  shows "items (deque_append d v) = drop (Suc (length (items d)) - maxlen d) (items d @ [v])"
proof (cases "maxlen d < Suc (length (items d))")
  case True
  then have one: "Suc (length (items d)) - maxlen d = Suc 0" using assms by simp
  have "items (deque_append d v) = tl (items d @ [v])"
    using True by (simp add: deque_append_def Let_def del: tl_append2)
  also have "\<dots> = drop (Suc 0) (items d @ [v])"
    by (simp only: drop_Suc drop_0)
  finally show ?thesis by (simp only: one)
next
  case False
  then show ?thesis by (simp add: deque_append_def Let_def)
qed

lemma deque_append_bounded:
  "length (items d) \<le> maxlen d \<Longrightarrow> length (items (deque_append d v)) \<le> maxlen d"
  by (simp add: deque_append_items)

lemma foldl_deque_append:
  "length (items d) \<le> maxlen d \<Longrightarrow>
   maxlen (foldl deque_append d vs) = maxlen d
   \<and> items (foldl deque_append d vs)
       = drop (length (items d) + length vs - maxlen d) (items d @ vs)"
proof (induction vs arbitrary: d)
  case Nil
  then show ?case by simp
next
  case (Cons v vs)
  let ?d = "deque_append d v"
  have le: "length (items ?d) \<le> maxlen ?d"
    using deque_append_bounded [OF Cons.prems] by (simp add: deque_append_maxlen)
  note IH = Cons.IH [OF le, unfolded deque_append_maxlen]
  have m: "maxlen (foldl deque_append d (v # vs)) = maxlen d"
    using IH by simp
  have "items (foldl deque_append d (v # vs))
        = drop (length (items d) + length (v # vs) - maxlen d) (items d @ v # vs)"
  proof (cases "maxlen d < Suc (length (items d))")
    case True
    then have full: "length (items d) = maxlen d" using Cons.prems by simp
    have it: "items ?d = drop (Suc 0) (items d @ [v])"
      using deque_append_items [OF Cons.prems, of v] full by simp
    have len: "length (items ?d) = maxlen d"
      using full by (simp add: it)
    have idx: "length (items d) + length (v # vs) - maxlen d = length vs + Suc 0"
      using full by simp
    have ap: "items ?d @ vs = drop (Suc 0) (items d @ v # vs)"
      unfolding it by (cases "items d") simp_all
    have "items (foldl deque_append d (v # vs)) = drop (length vs) (items ?d @ vs)"
      using IH len by simp
    also have "\<dots> = drop (length vs + Suc 0) (items d @ v # vs)"
      by (simp only: ap drop_drop)
    finally show ?thesis by (simp only: idx)
  next
    case False
    then have it: "items ?d = items d @ [v]"
      by (simp add: deque_append_def Let_def)
    show ?thesis using IH by (simp add: it)
  qed
  with m show ?case by blast
qed

lemma samples_foldl:
  "samples (foldl LatencyStats_add s vs) = foldl deque_append (samples s) vs"
  by (induction vs arbitrary: s) (simp_all add: LatencyStats_add_def)

lemma results_foldl:
  "results (foldl UptimeStats_add u bs)
   = foldl deque_append (results u) (map (\<lambda>b. if b then 1 else 0 :: nat) bs)"
  by (induction bs arbitrary: u) (simp_all add: UptimeStats_add_def)

text \<open>
  Both windows are bounded FIFO buffers of capacity 200, whatever window is configured:
  after any sequence of additions to fresh statistics, the window holds the most recent
  200 values in their order of arrival.
\<close>

lemma windows_keep_last_200:
  "items (samples (foldl LatencyStats_add LatencyStats_new vs)) = drop (length vs - 200) vs"
  "items (results (foldl UptimeStats_add (UptimeStats_new w) bs))
   = drop (length bs - 200) (map (\<lambda>b. if b then 1 else 0 :: nat) bs)"
  using foldl_deque_append [of "deque_new 200" vs]
    foldl_deque_append [of "deque_new 200" "map (\<lambda>b. if b then 1 else 0 :: nat) bs"]
  by (simp_all add: samples_foldl results_foldl LatencyStats_new_def UptimeStats_new_def
        deque_new_def)

text \<open>
  C3 at a window capacity of 3. A monitor configured with \<open>window = 3\<close> hands that
  value to \<open>UptimeStats\<close>, which stores it and does not use it, and not at all to
  \<open>LatencyStats\<close>: after four probes of one key both windows hold four elements.
\<close>

theorem configured_window_ignored:
  "cfg_window (DNSUptimerAI_new [''example.com''] [''1.1.1.1''] [''A''] 15 3 3 None) = 3
   \<and> window (uptime_at (DNSUptimerAI_new [''example.com''] [''1.1.1.1''] [''A''] 15 3 3 None)
               (''example.com'', ''1.1.1.1'', ''A'')) = 3
   \<and> items (results (foldl UptimeStats_add
        (uptime_at (DNSUptimerAI_new [''example.com''] [''1.1.1.1''] [''A''] 15 3 3 None)
           (''example.com'', ''1.1.1.1'', ''A''))
        [True, True, False, True])) = [1, 1, 0, 1]
   \<and> items (samples (foldl LatencyStats_add
        (latency_at (DNSUptimerAI_new [''example.com''] [''1.1.1.1''] [''A''] 15 3 3 None)
           (''example.com'', ''1.1.1.1'', ''A''))
        [11, 12, 13, 14])) = [11, 12, 13, 14]"
  by (simp add: DNSUptimerAI_new_def uptime_at_def latency_at_def UptimeStats_new_def
        UptimeStats_add_def LatencyStats_new_def LatencyStats_add_def deque_new_def
        deque_append_def Let_def)

section \<open>The probe\<close>

text \<open>
  C8. Whatever exception of class \<open>Exception\<close> the resolution raises (timeout,
  NXDOMAIN, no answer, no reachable name server, malformed response, a socket error), the
  probe returns \<open>success = False\<close> with the elapsed time, no addresses and the text of
  the exception, and raises nothing; on an answer it returns \<open>success = True\<close> with
  the elapsed time, the addresses and no error text.
\<close>

theorem resolve_once_contains_errors:
  "(is_Exception (cls e) \<longrightarrow>
      resolve_once str_r t0 t1 (Inl e) = Inr (False, (t1 - t0) * 1000, None, Some (str_e e)))
   \<and> (cls e \<in> {LifetimeTimeout, NXDOMAIN, NoAnswer, NoNameservers, FormError, OSError}
        \<longrightarrow> is_Exception (cls e))
   \<and> resolve_once str_r t0 t1 (Inr ans)
       = Inr (True, (t1 - t0) * 1000, Some (map str_r ans), None)"
  by (auto simp: resolve_once_def)

theorem resolve_once_contains_errors_witness:
  "cls \<lparr>cls = LifetimeTimeout, str_e = ''The resolution lifetime expired''\<rparr>
     \<in> {LifetimeTimeout, NXDOMAIN, NoAnswer, NoNameservers, FormError, OSError}
   \<and> is_Exception (cls \<lparr>cls = LifetimeTimeout, str_e = ''The resolution lifetime expired''\<rparr>)
   \<and> resolve_once id 2 5 (Inl \<lparr>cls = LifetimeTimeout,
                                 str_e = ''The resolution lifetime expired''\<rparr>)
       = Inr (False, 3000, None, Some ''The resolution lifetime expired'')
   \<and> resolve_once id 2 (205 / 100) (Inr [''192.0.2.1''])
       = Inr (True, 50, Some [''192.0.2.1''], None)"
  using resolve_once_contains_errors
    [of "\<lparr>cls = LifetimeTimeout, str_e = ''The resolution lifetime expired''\<rparr>"
        id 2 5 "[''192.0.2.1'']"]
    resolve_once_contains_errors
    [of "\<lparr>cls = LifetimeTimeout, str_e = ''The resolution lifetime expired''\<rparr>"
        id 2 "205 / 100" "[''192.0.2.1'']"]
  by simp

section \<open>The monitor loop\<close>

lemma step_keeps_stop:
  "stop_set s \<Longrightarrow> stop_set (step iv s e) \<and> waves (step iv s e) = waves s"
  by (cases e; cases "pc s") (simp_all add: while_test_def enter_wait_def)

lemma run_keeps_stop:
  "stop_set s \<Longrightarrow>
   stop_set (foldl (step iv) s es) \<and> waves (foldl (step iv) s es) = waves s"
proof (induction es arbitrary: s)
  case Nil
  then show ?case by simp
next
  case (Cons e es)
  have "stop_set (step iv s e)" and w: "waves (step iv s e) = waves s"
    using step_keeps_stop [OF Cons.prems] by simp_all
  from Cons.IH [OF this(1)] w show ?case by simp
qed

lemma returned_is_final: "pc s = Returned \<Longrightarrow> pc (foldl (step iv) s es) = Returned"
proof (induction es arbitrary: s)
  case Nil
  then show ?case by simp
next
  case (Cons e es)
  have "pc (step iv s e) = Returned"
    using Cons.prems by (cases e) simp_all
  from Cons.IH [OF this] show ?case by simp
qed

text \<open>
  C9. Once the stop event is set, no wave is dispatched any more, whatever happens next.
  And a stop signal that arrives while the loop is suspended in the inter-wave
  \<open>wait_for\<close>, with \<open>k\<close> ticks of the interval still to sleep, makes the loop
  return at that signal, without a further tick and without a further wave; it stays
  returned.
\<close>

theorem no_wave_after_stop:
  "(stop_set s \<longrightarrow> waves (foldl (step iv) s es) = waves s)
   \<and> (pc s = InWaitFor k \<longrightarrow>
        pc (step iv s StopSignal) = Returned
        \<and> pc (foldl (step iv) (step iv s StopSignal) es) = Returned
        \<and> waves (foldl (step iv) (step iv s StopSignal) es) = waves s)"
proof (intro conjI impI)
  assume "stop_set s"
  then show "waves (foldl (step iv) s es) = waves s"
    using run_keeps_stop by blast
next
  assume k: "pc s = InWaitFor k"
  then show r: "pc (step iv s StopSignal) = Returned"
    by (simp add: while_test_def)
  then show "pc (foldl (step iv) (step iv s StopSignal) es) = Returned"
    by (rule returned_is_final)
  have "stop_set (step iv s StopSignal)" and "waves (step iv s StopSignal) = waves s"
    using k by (simp_all add: while_test_def)
  then show "waves (foldl (step iv) (step iv s StopSignal) es) = waves s"
    using run_keeps_stop [of "step iv s StopSignal" iv es] by simp
qed

text \<open>
  Two runs with an interval of three ticks. In the first the stop signal arrives during
  the first wave: the wave completes, and the loop returns without a second one. In the
  second the first wave completes, one tick of the sleep passes and the stop signal
  arrives: the loop has returned after one wave, and neither the remaining ticks nor
  anything else starts a second one. Without the signal the three ticks end the sleep and
  a second wave starts.
\<close>

theorem no_wave_after_stop_witness:
  "stop_set (run_loop 3 [StopSignal])
   \<and> waves (run_loop 3 [StopSignal]) = 1
   \<and> waves (foldl (step 3) (run_loop 3 [StopSignal]) [GatherDone, Tick, Tick, Tick]) = 1
   \<and> pc (run_loop 3 [GatherDone, Tick]) = InWaitFor 2
   \<and> pc (step 3 (run_loop 3 [GatherDone, Tick]) StopSignal) = Returned
   \<and> waves (foldl (step 3) (step 3 (run_loop 3 [GatherDone, Tick]) StopSignal)
              [Tick, Tick, GatherDone, Tick]) = 1
   \<and> waves (run_loop 3 [GatherDone, Tick, Tick, Tick]) = 2"
proof -
  have s0: "run_loop 3 [GatherDone, Tick] = \<lparr>pc = InWaitFor 2, stop_set = False, waves = 1\<rparr>"
    by (simp add: run_loop_def while_test_def enter_wait_def)
  have s1: "run_loop 3 [StopSignal] = \<lparr>pc = InGather, stop_set = True, waves = 1\<rparr>"
    by (simp add: run_loop_def while_test_def enter_wait_def)
  have w2: "waves (run_loop 3 [GatherDone, Tick, Tick, Tick]) = 2"
    by (simp add: run_loop_def while_test_def enter_wait_def)
  show ?thesis
    unfolding s0 s1
    using no_wave_after_stop [of "\<lparr>pc = InWaitFor 2, stop_set = False, waves = 1\<rparr>" 3
        "[Tick, Tick, GatherDone, Tick]" 2]
      no_wave_after_stop [of "\<lparr>pc = InGather, stop_set = True, waves = 1\<rparr>" 3
        "[GatherDone, Tick, Tick, Tick]" 0] w2
    by (simp add: while_test_def)
qed

end
